theory Spec2Isabelle
  imports Complex_Main
begin

section \<open>The Gurobi adapters of PuLP (pulp/apis/gurobi\_api.py)\<close>

text \<open>
  The module holds two solver adapters. \<open>GUROBI\<close> drives the engine in-process through
  gurobipy; \<open>GUROBI_CMD\<close> writes files and runs the \<open>gurobi_cl\<close> executable. Both
  annotate a problem object that the modelling layer owns. Numbers are Python floats in
  the source; the adapters only copy them, negate them and compare them with nothing, so
  they are carried as \<open>real\<close>. Strings are lists of characters.
\<close>

subsection \<open>Constants of the modelling layer and of gurobipy\<close>

text \<open>
  Modelled from the spec: the \<open>constants\<close> module of the package is not part of this
  file. Its status enumeration has the five outcomes of the spec's data model, a Variable
  is continuous or integer, and a constraint has one of three relational senses or an
  unrecognised one.
\<close>

datatype LpStatus =
  LpStatusOptimal | LpStatusInfeasible | LpStatusUnbounded | LpStatusNotSolved
  | LpStatusUndefined

datatype LpCategory = LpContinuous | LpInteger

datatype LpSense = LpMinimize | LpMaximize

datatype LpConstraintSense =
  LpConstraintLE | LpConstraintGE | LpConstraintEQ | LpConstraintUnknown int

text \<open>
  \<open>gurobipy.GRB\<close> is a table of constants of the engine's binding. The termination
  status codes and the infinity sentinel are taken as a parameter; the variable kinds and
  the relation codes are distinct tags.
\<close>

record GRB =
  LOADED :: int
  OPTIMAL :: int
  INFEASIBLE :: int
  INF_OR_UNBD :: int
  UNBOUNDED :: int
  ITERATION_LIMIT :: int
  NODE_LIMIT :: int
  TIME_LIMIT :: int
  SOLUTION_LIMIT :: int
  INTERRUPTED :: int
  NUMERIC :: int
  INFINITY :: real

datatype grb_vtype = CONTINUOUS | INTEGER

datatype grb_relation = LESS_EQUAL | GREATER_EQUAL | EQUAL

text \<open>The numbering that gurobipy ships, used to evaluate the adapters on examples.\<close>

definition gurobipy_GRB :: GRB where
  "gurobipy_GRB =
     \<lparr>LOADED = 1, OPTIMAL = 2, INFEASIBLE = 3, INF_OR_UNBD = 4, UNBOUNDED = 5,
      ITERATION_LIMIT = 7, NODE_LIMIT = 8, TIME_LIMIT = 9, SOLUTION_LIMIT = 10,
      INTERRUPTED = 11, NUMERIC = 12, INFINITY = 10 ^ 100\<rparr>"

subsection \<open>Errors\<close>

datatype PyError =
  PulpSolverError string | AttributeError | ValueError | IndexError

subsection \<open>The native model\<close>

text \<open>
  A native variable as \<open>Model.addVar\<close> creates it, a native constraint as
  \<open>Model.addConstr\<close> creates it, and the model with the attributes the adapter reads
  after \<open>optimize\<close>: \<open>Status\<close>, \<open>IsMIP\<close>, and one \<open>X\<close> and \<open>RC\<close> per native
  variable, one \<open>Slack\<close> and \<open>Pi\<close> per native constraint, in the order of
  \<open>getVars()\<close> and \<open>getConstrs()\<close>.
\<close>

record grb_var =
  lb :: real
  ub :: real
  vtype :: grb_vtype
  obj :: real
  VarName :: string

record grb_constr =
  lhs :: "(real \<times> grb_var) list"
  relation :: grb_relation
  RHS :: real
  ConstrName :: string

datatype param_value = PNum real | PStr string

record grb_model =
  ModelName :: string
  ModelSense :: int
  Params :: "(string \<times> param_value) list"
  getVars :: "grb_var list"
  getConstrs :: "grb_constr list"
  Status :: int
  Attr_IsMIP :: bool
  Attr_X :: "real list"
  Attr_Slack :: "real list"
  Attr_RC :: "real list"
  Attr_Pi :: "real list"

subsection \<open>The problem of the modelling layer\<close>

text \<open>
  A Variable and a Constraint carry the fields the adapters read and write. Variables are
  dictionary keys by identity in the source; their names are unique, so the objective and
  the coefficient mapping of a constraint are keyed by name here. \<open>lp.variables()\<close> is
  the ordered collection \<open>variables\<close>, \<open>lp.constraints\<close> the ordered mapping from names
  to constraints.
\<close>

record LpVariable =
  name :: string
  lowBound :: "real option"
  upBound :: "real option"
  cat :: LpCategory
  varValue :: "real option"
  dj :: "real option"
  isModified :: bool
  modified :: bool
  solverVar :: "grb_var option"

record LpConstraint =
  coefficients :: "(string \<times> real) list"
  sense :: LpConstraintSense
  constr_constant :: real
  slack :: "real option"
  constr_pi :: "real option"
  constr_modified :: bool
  solverConstraint :: "grb_constr option"

record LpProblem =
  lp_name :: string
  lp_sense :: LpSense
  objective :: "string \<rightharpoonup> real"
  variables :: "LpVariable list"
  constraints :: "(string \<times> LpConstraint) list"
  status :: "LpStatus option"
  resolveOK :: bool
  solverModel :: "grb_model option"

text \<open>
  Modelled from the spec: \<open>assignStatus\<close> belongs to the modelling layer; it assigns the
  single authoritative outcome of the solve call onto the problem.
\<close>

definition assignStatus :: "LpProblem \<Rightarrow> LpStatus \<Rightarrow> LpProblem" where
  "assignStatus lp s = lp\<lparr>status := Some s\<rparr>"

subsection \<open>The solver object\<close>

record LpSolver =
  mip :: bool
  msg :: bool
  timeLimit :: "real option"
  optionsDict :: "string \<rightharpoonup> param_value"
  path :: string
  options :: "(string \<times> param_value) list"
  warmStart :: bool

subsection \<open>Python helpers\<close>

text \<open>
  A dictionary literal keeps the last value given for a key; \<open>d.get(k, default)\<close>
  returns the default for a missing key.
\<close>

definition dict_get :: "('k \<times> 'v) list \<Rightarrow> 'k \<Rightarrow> 'v \<Rightarrow> 'v" where
  "dict_get d k dflt = (case map_of (rev d) k of None \<Rightarrow> dflt | Some v \<Rightarrow> v)"

text \<open>
  \<open>for a, b in zip(xs, ys): a.field = b\<close>: the pairs stop with the shorter list, and the
  elements beyond it keep their field.
\<close>

fun zip_assign :: "('a \<Rightarrow> 'b \<Rightarrow> 'a) \<Rightarrow> 'a list \<Rightarrow> 'b list \<Rightarrow> 'a list" where
  "zip_assign f (x # xs) (y # ys) = f x y # zip_assign f xs ys"
| "zip_assign f xs [] = xs"
| "zip_assign f [] ys = []"

text \<open>Truthiness of an optional setting: \<open>None\<close>, zero and the empty string are false.\<close>

fun truthy :: "param_value option \<Rightarrow> bool" where
  "truthy None = False"
| "truthy (Some (PNum x)) = (x \<noteq> 0)"
| "truthy (Some (PStr s)) = (s \<noteq> [])"

subsection \<open>GUROBI.findSolutionValues\<close>

definition gurobiLpStatus :: "GRB \<Rightarrow> (int \<times> LpStatus) list" where
  "gurobiLpStatus G =
     [(OPTIMAL G, LpStatusOptimal),
      (INFEASIBLE G, LpStatusInfeasible),
      (INF_OR_UNBD G, LpStatusInfeasible),
      (UNBOUNDED G, LpStatusUnbounded),
      (ITERATION_LIMIT G, LpStatusNotSolved),
      (NODE_LIMIT G, LpStatusNotSolved),
      (TIME_LIMIT G, LpStatusNotSolved),
      (SOLUTION_LIMIT G, LpStatusNotSolved),
      (INTERRUPTED G, LpStatusNotSolved),
      (NUMERIC G, LpStatusNotSolved)]"

definition set_varValue :: "LpVariable \<Rightarrow> real \<Rightarrow> LpVariable" where
  "set_varValue var x = var\<lparr>varValue := Some x\<rparr>"

definition set_dj :: "LpVariable \<Rightarrow> real \<Rightarrow> LpVariable" where
  "set_dj var x = var\<lparr>dj := Some x\<rparr>"

definition set_slack :: "string \<times> LpConstraint \<Rightarrow> real \<Rightarrow> string \<times> LpConstraint" where
  "set_slack nc x = (fst nc, (snd nc)\<lparr>slack := Some x\<rparr>)"

definition set_pi :: "string \<times> LpConstraint \<Rightarrow> real \<Rightarrow> string \<times> LpConstraint" where
  "set_pi nc x = (fst nc, (snd nc)\<lparr>constr_pi := Some x\<rparr>)"

text \<open>
  The function returns the status and leaves its effects on the problem; both are the
  result here. Reading \<open>lp.solverModel\<close> of a problem that was never built raises
  \<open>AttributeError\<close> before anything is written. The message printed when \<open>msg\<close> is set
  goes to the console and is not part of the problem.
\<close>

definition findSolutionValues :: "GRB \<Rightarrow> LpSolver \<Rightarrow> LpProblem \<Rightarrow> PyError + LpStatus \<times> LpProblem" where
  "findSolutionValues G self lp =
     (case solverModel lp of
        None \<Rightarrow> Inl AttributeError
      | Some model \<Rightarrow>
          let solutionStatus = Status model;
              lp1 = lp\<lparr>resolveOK := True\<rparr>;
              lp2 = lp1\<lparr>variables := map (\<lambda>var. var\<lparr>isModified := False\<rparr>) (variables lp1)\<rparr>;
              st = dict_get (gurobiLpStatus G) solutionStatus LpStatusUndefined;
              lp3 = assignStatus lp2 st
          in if st \<noteq> LpStatusOptimal then Inr (st, lp3)
             else
               let lp4 = lp3\<lparr>variables := zip_assign set_varValue (variables lp3) (Attr_X model)\<rparr>;
                   lp5 = lp4\<lparr>constraints := zip_assign set_slack (constraints lp4) (Attr_Slack model)\<rparr>;
                   lp6 = (if \<not> Attr_IsMIP model
                          then (lp5\<lparr>variables := zip_assign set_dj (variables lp5) (Attr_RC model)\<rparr>)
                                 \<lparr>constraints := zip_assign set_pi (constraints lp5) (Attr_Pi model)\<rparr>
                          else lp5)
               in Inr (st, lp6))"

subsection \<open>GUROBI.buildSolverModel\<close>

text \<open>
  The calls of the binding that the adapter makes. \<open>gurobipy.Model(name)\<close> is a fresh
  model with no variables and no constraints, minimising; \<open>setParam\<close> records a
  parameter; \<open>addVar\<close> and \<open>addConstr\<close> append to the model and return the new native
  object, and a model with an integer variable is a MIP. \<open>update()\<close> changes nothing
  that is looked at here.
\<close>

definition Model :: "GRB \<Rightarrow> string \<Rightarrow> grb_model" where
  "Model G nm =
     \<lparr>ModelName = nm, ModelSense = 1, Params = [], getVars = [], getConstrs = [],
      Status = LOADED G, Attr_IsMIP = False, Attr_X = [], Attr_Slack = [], Attr_RC = [],
      Attr_Pi = []\<rparr>"

definition setParam :: "grb_model \<Rightarrow> string \<Rightarrow> param_value \<Rightarrow> grb_model" where
  "setParam m k v = m\<lparr>Params := Params m @ [(k, v)]\<rparr>"

definition setParam_if :: "grb_model \<Rightarrow> string \<Rightarrow> param_value option \<Rightarrow> grb_model" where
  "setParam_if m k v =
     (if truthy v then (case v of None \<Rightarrow> m | Some x \<Rightarrow> setParam m k x) else m)"

definition addVar ::
  "grb_model \<Rightarrow> real \<Rightarrow> real \<Rightarrow> grb_vtype \<Rightarrow> real \<Rightarrow> string \<Rightarrow> grb_var \<times> grb_model" where
  "addVar m l u t c nm =
     (let v = \<lparr>lb = l, ub = u, vtype = t, obj = c, VarName = nm\<rparr>
      in (v, m\<lparr>getVars := getVars m @ [v], Attr_IsMIP := (Attr_IsMIP m \<or> t = INTEGER)\<rparr>))"

definition addConstr ::
  "grb_model \<Rightarrow> (real \<times> grb_var) list \<Rightarrow> grb_relation \<Rightarrow> real \<Rightarrow> string \<Rightarrow> grb_constr \<times> grb_model" where
  "addConstr m e r b nm =
     (let c = \<lparr>lhs = e, relation = r, RHS = b, ConstrName = nm\<rparr>
      in (c, m\<lparr>getConstrs := getConstrs m @ [c]\<rparr>))"

text \<open>The loop over \<open>lp.variables()\<close>: one native variable per Variable, attached to it.\<close>

fun add_variables ::
  "GRB \<Rightarrow> LpSolver \<Rightarrow> (string \<rightharpoonup> real) \<Rightarrow> LpVariable list \<Rightarrow> grb_model
    \<Rightarrow> LpVariable list \<times> grb_model" where
  "add_variables G self objv [] m = ([], m)"
| "add_variables G self objv (var # vars) m =
     (let lo = (case lowBound var of None \<Rightarrow> - INFINITY G | Some l \<Rightarrow> l);
          up = (case upBound var of None \<Rightarrow> INFINITY G | Some u \<Rightarrow> u);
          c = (case objv (name var) of None \<Rightarrow> 0 | Some x \<Rightarrow> x);
          varType = (if cat var = LpInteger \<and> mip self then INTEGER else CONTINUOUS);
          (sv, m') = addVar m lo up varType c (name var);
          (vars', m'') = add_variables G self objv vars m'
      in (var\<lparr>solverVar := Some sv\<rparr> # vars', m''))"

text \<open>
  \<open>[v.solverVar for v in constraint.keys()]\<close>: the native handle of each variable of the
  constraint; a variable without a handle raises \<open>AttributeError\<close>.
\<close>

fun solverVars :: "LpVariable list \<Rightarrow> string list \<Rightarrow> PyError + grb_var list" where
  "solverVars vars [] = Inr []"
| "solverVars vars (k # ks) =
     (case find (\<lambda>v. name v = k) vars of
        None \<Rightarrow> Inl AttributeError
      | Some v \<Rightarrow>
          (case solverVar v of
             None \<Rightarrow> Inl AttributeError
           | Some sv \<Rightarrow>
               (case solverVars vars ks of Inl e \<Rightarrow> Inl e | Inr svs \<Rightarrow> Inr (sv # svs))))"

fun relation_of :: "LpConstraintSense \<Rightarrow> grb_relation option" where
  "relation_of LpConstraintLE = Some LESS_EQUAL"
| "relation_of LpConstraintGE = Some GREATER_EQUAL"
| "relation_of LpConstraintEQ = Some EQUAL"
| "relation_of (LpConstraintUnknown k) = None"

text \<open>
  The loop over \<open>lp.constraints.items()\<close>. An exception leaves the constraints already
  handled with their handle and the others as they were.
\<close>

fun add_constraints ::
  "LpVariable list \<Rightarrow> (string \<times> LpConstraint) list \<Rightarrow> grb_model
    \<Rightarrow> PyError option \<times> (string \<times> LpConstraint) list \<times> grb_model" where
  "add_constraints vars [] m = (None, [], m)"
| "add_constraints vars ((nm, con) # rest) m =
     (case solverVars vars (map fst (coefficients con)) of
        Inl e \<Rightarrow> (Some e, (nm, con) # rest, m)
      | Inr svs \<Rightarrow>
          let expr = zip (map snd (coefficients con)) svs
          in (case relation_of (sense con) of
                None \<Rightarrow>
                  (Some (PulpSolverError ''Detected an invalid constraint type''),
                   (nm, con) # rest, m)
              | Some rel \<Rightarrow>
                  let (sc, m') = addConstr m expr rel (- constr_constant con) nm;
                      (err, rest', m'') = add_constraints vars rest m'
                  in (err, (nm, con\<lparr>solverConstraint := Some sc\<rparr>) # rest', m'')))"

text \<open>
  The result is the exception, if one was raised, and the problem as the call leaves it.
\<close>

definition buildSolverModel :: "GRB \<Rightarrow> LpSolver \<Rightarrow> LpProblem \<Rightarrow> PyError option \<times> LpProblem" where
  "buildSolverModel G self lp =
     (let m0 = Model G (lp_name lp);
          m1 = (if lp_sense lp = LpMaximize then m0\<lparr>ModelSense := - 1\<rparr> else m0);
          m2 = setParam_if m1 ''TimeLimit'' (map_option PNum (timeLimit self));
          gapRel = optionsDict self ''gapRel'';
          logPath = optionsDict self ''logPath'';
          m3 = setParam_if m2 ''MIPGap'' gapRel;
          m4 = setParam_if m3 ''LogFile'' logPath;
          (vars, m5) = add_variables G self (objective lp) (variables lp) m4;
          (err, cons, m6) = add_constraints vars (constraints lp) m5
      in (err, lp\<lparr>variables := vars, constraints := cons, solverModel := Some m6\<rparr>))"

subsection \<open>Text files as Python reads and writes them\<close>

text \<open>
  The characters of a text are code points below 256. \<open>isspace\<close> is \<open>str.isspace\<close> on
  them: tab, line feed, vertical tab, form feed, carriage return, the four separators
  \<open>0x1C\<close> to \<open>0x1F\<close>, the space, next line and the no-break space.
\<close>

definition LF :: char where
  "LF = CHR 0x0A"

definition CR :: char where
  "CR = CHR 0x0D"

definition isspace :: "char \<Rightarrow> bool" where
  "isspace c =
     (c \<in> set [CHR 0x09, CHR 0x0A, CHR 0x0B, CHR 0x0C, CHR 0x0D, CHR 0x1C, CHR 0x1D,
                CHR 0x1E, CHR 0x1F, CHR 0x20, CHR 0x85, CHR 0xA0])"

text \<open>
  \<open>s.split()\<close> with no argument: the maximal runs of characters that are not
  whitespace. \<open>tok\<close> is the run being read.
\<close>

fun split_from :: "string \<Rightarrow> string \<Rightarrow> string list" where
  "split_from tok [] = (if tok = [] then [] else [tok])"
| "split_from tok (c # cs) =
     (if isspace c then (if tok = [] then split_from [] cs else tok # split_from [] cs)
      else split_from (tok @ [c]) cs)"

definition py_split :: "string \<Rightarrow> string list" where
  "py_split s = split_from [] s"

text \<open>\<open>sep.join(rows)\<close>.\<close>

fun join :: "string \<Rightarrow> string list \<Rightarrow> string" where
  "join sep [] = []"
| "join sep [r] = r"
| "join sep (r # r' # rs) = r @ sep @ join sep (r' # rs)"

text \<open>
  \<open>open(filename)\<close> reads in text mode with universal newlines: a carriage return, alone
  or followed by a line feed, is delivered as one line feed. Iterating over the file
  yields its lines, each with its line feed, the last one without when the text does not
  end in one. An empty file yields no line.
\<close>

fun universal_newlines :: "string \<Rightarrow> string" where
  "universal_newlines [] = []"
| "universal_newlines [c] = (if c = CR then [LF] else [c])"
| "universal_newlines (c # d # cs) =
     (if c = CR \<and> d = LF then LF # universal_newlines cs
      else if c = CR then LF # universal_newlines (d # cs)
      else c # universal_newlines (d # cs))"

fun file_lines :: "string \<Rightarrow> string list" where
  "file_lines [] = []"
| "file_lines (c # cs) =
     (if c = LF then [c] # file_lines cs
      else (case file_lines cs of [] \<Rightarrow> [[c]] | l # ls \<Rightarrow> (c # l) # ls))"

subsection \<open>GUROBI\_CMD.readsol and GUROBI\_CMD.writesol\<close>

text \<open>
  \<open>float(value)\<close> and the formatting of a number by \<open>format\<close> and \<open>%s\<close> are Python's
  own. They are parameters: \<open>pyfloat\<close> gives the number a token denotes, or nothing when
  \<open>float\<close> raises \<open>ValueError\<close>; \<open>fmt\<close> gives the text of a number.
\<close>

type_synonym pydict = "string \<rightharpoonup> real"

text \<open>
  The loop over the lines after the first. A line that is not a comment must unpack into
  exactly two tokens, and the second must be a number; otherwise \<open>ValueError\<close> leaves
  the function.
\<close>

fun readsol_lines :: "(string \<Rightarrow> real option) \<Rightarrow> string list \<Rightarrow> pydict \<Rightarrow> PyError + pydict" where
  "readsol_lines pyfloat [] vals = Inr vals"
| "readsol_lines pyfloat (line # my_file) vals =
     (case line of
        [] \<Rightarrow> Inl IndexError
      | c # _ \<Rightarrow>
          if c \<noteq> CHR ''#'' then
            (case py_split line of
               [nm, v] \<Rightarrow>
                 (case pyfloat v of
                    None \<Rightarrow> Inl ValueError
                  | Some x \<Rightarrow> readsol_lines pyfloat my_file (vals(nm \<mapsto> x)))
             | _ \<Rightarrow> Inl ValueError)
          else readsol_lines pyfloat my_file vals)"

text \<open>
  The argument is the content of the file named \<open>filename\<close>. The result is the tuple
  \<open>(status, values, reducedCosts, shadowPrices, slacks)\<close>.
\<close>

definition readsol ::
  "(string \<Rightarrow> real option) \<Rightarrow> string \<Rightarrow> PyError + LpStatus \<times> pydict \<times> pydict \<times> pydict \<times> pydict" where
  "readsol pyfloat content =
     (case file_lines (universal_newlines content) of
        [] \<Rightarrow> Inr (LpStatusNotSolved, Map.empty, Map.empty, Map.empty, Map.empty)
      | first # my_file \<Rightarrow>
          (case readsol_lines pyfloat my_file Map.empty of
             Inl e \<Rightarrow> Inl e
           | Inr vals \<Rightarrow> Inr (LpStatusOptimal, vals, Map.empty, Map.empty, Map.empty)))"

text \<open>
  Modelled from the spec: \<open>v.value()\<close> belongs to the modelling layer; it is the
  Variable's current value, absent when the Variable has none.
\<close>

definition var_value :: "LpVariable \<Rightarrow> real option" where
  "var_value v = varValue v"

text \<open>
  \<open>writesol\<close> keeps the variables that have a value, makes one row \<open>name value\<close> of
  each, and writes the rows joined by line feeds. The result is the text written.
\<close>

definition writesol_values :: "LpVariable list \<Rightarrow> (string \<times> real) list" where
  "writesol_values vs = List.map_filter (\<lambda>v. map_option (Pair (name v)) (var_value v)) vs"

definition writesol_row :: "(real \<Rightarrow> string) \<Rightarrow> string \<times> real \<Rightarrow> string" where
  "writesol_row fmt nv = fst nv @ '' '' @ fmt (snd nv)"

definition writesol :: "(real \<Rightarrow> string) \<Rightarrow> LpVariable list \<Rightarrow> string" where
  "writesol fmt vs = join [LF] (map (writesol_row fmt) (writesol_values vs))"

subsection \<open>GUROBI\_CMD.getOptions and GUROBI\_CMD.actualSolve\<close>

definition params_eq :: "(string \<times> string) list" where
  "params_eq =
     [(''logPath'', ''LogFile''), (''timeLimit'', ''TimeLimit''), (''gapRel'', ''MIPGap''),
      (''gapAbs'', ''MIPGapAbs''), (''threads'', ''Threads'')]"

definition getOptions :: "LpSolver \<Rightarrow> (string \<times> param_value) list" where
  "getOptions self =
     List.map_filter (\<lambda>kv. map_option (Pair (snd kv)) (optionsDict self (fst kv))) params_eq"

fun pystr :: "(real \<Rightarrow> string) \<Rightarrow> param_value \<Rightarrow> string" where
  "pystr fmt (PNum x) = fmt x"
| "pystr fmt (PStr s) = s"

text \<open>
  What the collaborators of one call answer: whether the configured path is executable,
  the three paths \<open>create_tmp_files\<close> chooses, the variables \<open>lp.writeLP\<close> returns,
  \<open>lp.isMIP()\<close>, the exit code of the subprocess, and the content of the solution file
  after the subprocess has run, if that file exists.
\<close>

record cmd_env =
  executable :: bool
  tmp_files :: "string \<times> string \<times> string"
  writeLP_vs :: "LpVariable list"
  isMIP :: bool
  return_code :: int
  solution_file :: "string option"

text \<open>
  What the call does to the world outside it, in order: the files it writes, removes and
  reads, the warning, the null device, the subprocess, and the methods of the problem it
  calls with their arguments. The mappings and the status that reach the problem are the
  arguments of the \<open>Assign\<close> events.
\<close>

datatype event =
    WriteLP string
  | Remove string
  | WriteSol string string
  | Warn string
  | OpenDevnull
  | SubprocessCall "string list" bool
  | ClosePipe
  | ReadSol string
  | DeleteTmpFiles "string list"
  | AssignVarsVals "pydict option"
  | AssignVarsDj "pydict option"
  | AssignConsPi "pydict option"
  | AssignConsSlack "pydict option"
  | AssignStatus LpStatus

definition build_cmd ::
  "(real \<Rightarrow> string) \<Rightarrow> LpSolver \<Rightarrow> string \<Rightarrow> string \<Rightarrow> string \<Rightarrow> string" where
  "build_cmd fmt self tmpLp tmpSol tmpMst =
     path self @ '' ''
     @ join '' '' (map (\<lambda>kv. fst kv @ ''='' @ pystr fmt (snd kv)) (options self @ getOptions self))
     @ '' ResultFile='' @ tmpSol
     @ (if warmStart self then '' InputFile='' @ tmpMst else [])
     @ '' '' @ tmpLp"

text \<open>The end of the call once status and results are known.\<close>

definition extract_results ::
  "string list \<Rightarrow> LpStatus \<Rightarrow> pydict option \<Rightarrow> pydict option \<Rightarrow> pydict option \<Rightarrow> pydict option
    \<Rightarrow> event list" where
  "extract_results files st vals reducedCosts shadowPrices slacks =
     [DeleteTmpFiles files]
     @ (if st \<noteq> LpStatusInfeasible
        then [AssignVarsVals vals, AssignVarsDj reducedCosts, AssignConsPi shadowPrices,
              AssignConsSlack slacks]
        else [])
     @ [AssignStatus st]"

text \<open>
  The result is the status returned or the exception raised, with the events up to
  there.
\<close>

definition GUROBI_CMD_actualSolve ::
  "(real \<Rightarrow> string) \<Rightarrow> (string \<Rightarrow> real option) \<Rightarrow> LpSolver \<Rightarrow> cmd_env
    \<Rightarrow> (PyError + LpStatus) \<times> event list" where
  "GUROBI_CMD_actualSolve fmt pyfloat self env =
     (if \<not> executable env
      then (Inl (PulpSolverError (''PuLP: cannot execute '' @ path self)), [])
      else
        let (tmpLp, tmpSol, tmpMst) = tmp_files env;
            vs = writeLP_vs env;
            t1 = [WriteLP tmpLp, Remove tmpSol];
            t2 = (if warmStart self then t1 @ [WriteSol tmpMst (writesol fmt vs)] else t1);
            t3 = (if isMIP env \<and> \<not> mip self
                  then t2 @ [Warn ''GUROBI_CMD does not allow a problem to be relaxed'']
                  else t2);
            cmd = build_cmd fmt self tmpLp tmpSol tmpMst;
            t4 = (if msg self then t3 else t3 @ [OpenDevnull]);
            t5 = t4 @ [SubprocessCall (py_split cmd) (\<not> msg self)];
            t6 = (if \<not> msg self then t5 @ [ClosePipe] else t5);
            files = [tmpLp, tmpMst, tmpSol, ''gurobi.log'']
        in if return_code env \<noteq> 0
           then (Inl (PulpSolverError (''PuLP: Error while trying to execute '' @ path self)), t6)
           else
             (case solution_file env of
                None \<Rightarrow>
                  (Inr LpStatusNotSolved,
                   t6 @ extract_results files LpStatusNotSolved None None None None)
              | Some content \<Rightarrow>
                  (case readsol pyfloat content of
                     Inl e \<Rightarrow> (Inl e, t6 @ [ReadSol tmpSol])
                   | Inr (st, vals, reducedCosts, shadowPrices, slacks) \<Rightarrow>
                       (Inr st,
                        t6 @ [ReadSol tmpSol]
                        @ extract_results files st (Some vals) (Some reducedCosts)
                            (Some shadowPrices) (Some slacks)))))"

subsection \<open>The vocabulary of the properties\<close>

text \<open>
  The table of the status mapping as the specification words it, and the condition that
  the ten status codes of the table are ten different numbers.
\<close>

definition status_table :: "GRB \<Rightarrow> int \<Rightarrow> LpStatus" where
  "status_table G s =
     (if s = OPTIMAL G then LpStatusOptimal
      else if s = INFEASIBLE G \<or> s = INF_OR_UNBD G then LpStatusInfeasible
      else if s = UNBOUNDED G then LpStatusUnbounded
      else if s = ITERATION_LIMIT G \<or> s = NODE_LIMIT G \<or> s = TIME_LIMIT G
              \<or> s = SOLUTION_LIMIT G \<or> s = INTERRUPTED G \<or> s = NUMERIC G
      then LpStatusNotSolved
      else LpStatusUndefined)"

definition distinct_codes :: "GRB \<Rightarrow> bool" where
  "distinct_codes G =
     distinct [OPTIMAL G, INFEASIBLE G, INF_OR_UNBD G, UNBOUNDED G, ITERATION_LIMIT G,
               NODE_LIMIT G, TIME_LIMIT G, SOLUTION_LIMIT G, INTERRUPTED G, NUMERIC G]"

text \<open>
  The solution file as the specification describes it: a line is a comment when it
  begins with \<open>#\<close>; the data lines are the lines after the first that are not comments;
  a data line gives a pair when it splits into exactly two tokens and the second denotes
  a number; a file is well formed when every data line gives a pair; the values of a file
  map the first token of each data line to the number of its second, a later line
  replacing an earlier one of the same name.
\<close>

definition is_comment :: "string \<Rightarrow> bool" where
  "is_comment line = (case line of [] \<Rightarrow> False | c # _ \<Rightarrow> c = CHR ''#'')"

definition data_lines :: "string \<Rightarrow> string list" where
  "data_lines content =
     filter (\<lambda>line. \<not> is_comment line) (tl (file_lines (universal_newlines content)))"

definition line_pair :: "(string \<Rightarrow> real option) \<Rightarrow> string \<Rightarrow> (string \<times> real) option" where
  "line_pair pyfloat line =
     (case py_split line of [nm, v] \<Rightarrow> map_option (Pair nm) (pyfloat v) | _ \<Rightarrow> None)"

definition well_formed :: "(string \<Rightarrow> real option) \<Rightarrow> string \<Rightarrow> bool" where
  "well_formed pyfloat content =
     list_all (\<lambda>line. line_pair pyfloat line \<noteq> None) (data_lines content)"

definition parsed_values :: "(string \<Rightarrow> real option) \<Rightarrow> string \<Rightarrow> pydict" where
  "parsed_values pyfloat content =
     map_of (rev (List.map_filter (line_pair pyfloat) (data_lines content)))"

text \<open>
  A token is a non-empty text without whitespace. A pair \<open>(name, value)\<close> can be written
  as a row and read back when the name is a token that does not begin with \<open>#\<close>, the
  text of the value is a token, and \<open>float\<close> reads that text back as the value.
\<close>

definition is_token :: "string \<Rightarrow> bool" where
  "is_token s = (s \<noteq> [] \<and> list_all (\<lambda>c. \<not> isspace c) s)"

definition row_ok :: "(real \<Rightarrow> string) \<Rightarrow> (string \<Rightarrow> real option) \<Rightarrow> string \<times> real \<Rightarrow> bool" where
  "row_ok fmt pyfloat nv =
     (is_token (fst nv) \<and> \<not> is_comment (fst nv) \<and> is_token (fmt (snd nv))
      \<and> pyfloat (fmt (snd nv)) = Some (snd nv))"

text \<open>The lines of a text made of rows joined by line feeds: all but the last end in one.\<close>

fun terminated :: "string list \<Rightarrow> string list" where
  "terminated [] = []"
| "terminated [r] = [r]"
| "terminated (r # r' # rs) = (r @ [LF]) # terminated (r' # rs)"

text \<open>
  Views of the events of a command-line solve: the events of result extraction, the files
  handed to \<open>delete_tmp_files\<close>, the events on the null device and the subprocess, and
  the reduced costs, shadow prices and slacks pushed onto the problem.
\<close>

fun is_extraction :: "event \<Rightarrow> bool" where
  "is_extraction (ReadSol f) = True"
| "is_extraction (AssignVarsVals m) = True"
| "is_extraction (AssignVarsDj m) = True"
| "is_extraction (AssignConsPi m) = True"
| "is_extraction (AssignConsSlack m) = True"
| "is_extraction (AssignStatus s) = True"
| "is_extraction e = False"

fun deleted_files :: "event list \<Rightarrow> string list" where
  "deleted_files [] = []"
| "deleted_files (DeleteTmpFiles fs # t) = fs @ deleted_files t"
| "deleted_files (e # t) = deleted_files t"

fun pipe_event :: "event \<Rightarrow> bool" where
  "pipe_event OpenDevnull = True"
| "pipe_event (SubprocessCall args p) = True"
| "pipe_event ClosePipe = True"
| "pipe_event e = False"

fun pushed :: "event list \<Rightarrow> pydict option list" where
  "pushed [] = []"
| "pushed (AssignVarsDj m # t) = m # pushed t"
| "pushed (AssignConsPi m # t) = m # pushed t"
| "pushed (AssignConsSlack m # t) = m # pushed t"
| "pushed (e # t) = pushed t"

text \<open>
  The events of a solve up to the end of the subprocess call, before the exit code is
  looked at.
\<close>

definition call_events :: "(real \<Rightarrow> string) \<Rightarrow> LpSolver \<Rightarrow> cmd_env \<Rightarrow> event list" where
  "call_events fmt self env =
     [WriteLP (fst (tmp_files env)), Remove (fst (snd (tmp_files env)))]
     @ (if warmStart self
        then [WriteSol (snd (snd (tmp_files env))) (writesol fmt (writeLP_vs env))] else [])
     @ (if isMIP env \<and> \<not> mip self
        then [Warn ''GUROBI_CMD does not allow a problem to be relaxed''] else [])
     @ (if msg self then [] else [OpenDevnull])
     @ [SubprocessCall (py_split (build_cmd fmt self (fst (tmp_files env))
          (fst (snd (tmp_files env))) (snd (snd (tmp_files env))))) (\<not> msg self)]
     @ (if msg self then [] else [ClosePipe])"

subsection \<open>Concrete inputs\<close>

text \<open>
  An instance of the two conversions, for evaluating the adapters on examples: whole
  numbers that are not negative, written as their decimal digits, which is how Python
  writes the integer \<open>12\<close> and what \<open>float\<close> reads back as twelve.
\<close>

definition digit_val :: "char \<Rightarrow> nat option" where
  "digit_val c = map_of (zip ''0123456789'' [0, 1, 2, 3, 4, 5, 6, 7, 8, 9]) c"

fun parse_nat :: "nat \<Rightarrow> string \<Rightarrow> nat option" where
  "parse_nat acc [] = Some acc"
| "parse_nat acc (c # cs) =
     (case digit_val c of None \<Rightarrow> None | Some d \<Rightarrow> parse_nat (10 * acc + d) cs)"

definition float_dec :: "string \<Rightarrow> real option" where
  "float_dec s = (if s = [] then None else map_option real (parse_nat 0 s))"

fun str_nat :: "nat \<Rightarrow> string" where
  "str_nat n =
     (if n < 10 then [''0123456789'' ! n]
      else str_nat (n div 10) @ [''0123456789'' ! (n mod 10)])"

declare str_nat.simps [simp del]

definition fmt_dec :: "real \<Rightarrow> string" where
  "fmt_dec x = str_nat (nat \<lfloor>x\<rfloor>)"

text \<open>
  A problem with a continuous variable \<open>x\<close>, an integer variable \<open>y\<close> and one
  constraint; a native model that reports a given status; a solver object; and the
  answers of the collaborators of a command-line solve with a given exit code and
  solution file.
\<close>

definition example_var :: "string \<Rightarrow> LpCategory \<Rightarrow> real option \<Rightarrow> LpVariable" where
  "example_var nm c x =
     \<lparr>name = nm, lowBound = Some 0, upBound = None, cat = c, varValue = x, dj = None,
      isModified = True, modified = True, solverVar = None\<rparr>"

definition example_model :: "int \<Rightarrow> bool \<Rightarrow> grb_model" where
  "example_model st ismip =
     \<lparr>ModelName = ''p'', ModelSense = 1, Params = [], getVars = [], getConstrs = [],
      Status = st, Attr_IsMIP = ismip, Attr_X = [1, 2], Attr_Slack = [0],
      Attr_RC = [3, 4], Attr_Pi = [5]\<rparr>"

definition example_lp :: "grb_model option \<Rightarrow> LpProblem" where
  "example_lp m =
     \<lparr>lp_name = ''p'', lp_sense = LpMaximize, objective = [''x'' \<mapsto> 7],
      variables = [example_var ''x'' LpContinuous None, example_var ''y'' LpInteger (Some 6)],
      constraints =
        [(''c1'', \<lparr>coefficients = [(''x'', 1), (''y'', 1)], sense = LpConstraintLE,
                   constr_constant = - 4, slack = None, constr_pi = Some 9,
                   constr_modified = True, solverConstraint = None\<rparr>)],
      status = None, resolveOK = False, solverModel = m\<rparr>"

definition example_solver :: "bool \<Rightarrow> LpSolver" where
  "example_solver verbose =
     \<lparr>mip = True, msg = verbose, timeLimit = None, optionsDict = [''threads'' \<mapsto> PNum 2],
      path = ''gurobi_cl'', options = [], warmStart = True\<rparr>"

definition example_env :: "int \<Rightarrow> string option \<Rightarrow> cmd_env" where
  "example_env rc sol =
     \<lparr>executable = True, tmp_files = (''p.lp'', ''p.sol'', ''p.mst''),
      writeLP_vs = [example_var ''x'' LpContinuous (Some 1), example_var ''y'' LpInteger (Some 2)],
      isMIP = True, return_code = rc, solution_file = sol\<rparr>"

section \<open>Properties of the in-process adapter\<close>

subsection \<open>Auxiliary facts\<close>

lemma zip_assign_length [simp]: "length (zip_assign f xs ys) = length xs"
  by (induction f xs ys rule: zip_assign.induct) simp_all

lemma zip_assign_map_eq:
  "length ys = length xs \<Longrightarrow> (\<And>x y. g (f x y) = h y)
    \<Longrightarrow> map g (zip_assign f xs ys) = map h ys"
  by (induction f xs ys rule: zip_assign.induct) simp_all

lemma zip_assign_map_keep:
  "(\<And>x y. g (f x y) = g x) \<Longrightarrow> map g (zip_assign f xs ys) = map g xs"
  by (induction f xs ys rule: zip_assign.induct) simp_all

lemma dict_get_gurobiLpStatus:
  "distinct_codes G \<Longrightarrow> dict_get (gurobiLpStatus G) s LpStatusUndefined = status_table G s"
  unfolding distinct_codes_def dict_get_def gurobiLpStatus_def status_table_def
  by simp

subsection \<open>The status mapping\<close>

text \<open>
  Claim C1. \<open>findSolutionValues\<close> maps every native termination status onto the status
  enumeration: whatever number the native model reports, the call returns, and the
  status it returns and assigns onto the problem is the one the table gives: optimal to
  Optimal; infeasible and infeasible-or-unbounded to Infeasible; unbounded to Unbounded;
  the four limits, interrupted and numeric trouble to NotSolved; anything else to
  Undefined. The ten codes of the table are different numbers, and the problem has a
  native model.
\<close>

theorem findSolutionValues_status_total:
  assumes "distinct_codes G" and "solverModel lp = Some m"
  shows "\<exists>lp'. findSolutionValues G self lp = Inr (status_table G (Status m), lp')
            \<and> status lp' = Some (status_table G (Status m))"
  using assms
  by (simp add: findSolutionValues_def Let_def dict_get_gurobiLpStatus assignStatus_def)

text \<open>With gurobipy's numbering, a model that stopped at the time limit (code 9).\<close>

theorem findSolutionValues_status_total_witness:
  "distinct_codes gurobipy_GRB
   \<and> solverModel (example_lp (Some (example_model 9 False))) = Some (example_model 9 False)
   \<and> (\<exists>lp'. findSolutionValues gurobipy_GRB (example_solver True)
               (example_lp (Some (example_model 9 False))) = Inr (LpStatusNotSolved, lp')
            \<and> status lp' = Some LpStatusNotSolved)"
  using findSolutionValues_status_total [of gurobipy_GRB
      "example_lp (Some (example_model 9 False))" "example_model 9 False" "example_solver True"]
  by (simp add: distinct_codes_def gurobipy_GRB_def example_lp_def example_model_def
      status_table_def)

subsection \<open>A status other than Optimal\<close>

text \<open>
  Claim C2. When the native status does not map to Optimal, \<open>findSolutionValues\<close>
  clears the flag \<open>isModified\<close> of every Variable, assigns the mapped status onto the
  problem and returns it, and writes nothing else: the values and reduced costs of the
  variables and the constraints with their slacks and duals are what they were before
  the call. (The call also sets \<open>resolveOK\<close>.)
\<close>

theorem findSolutionValues_not_optimal:
  assumes "solverModel lp = Some m"
    and "dict_get (gurobiLpStatus G) (Status m) LpStatusUndefined \<noteq> LpStatusOptimal"
  shows "let st = dict_get (gurobiLpStatus G) (Status m) LpStatusUndefined;
             lp' = lp\<lparr>variables := map (\<lambda>var. var\<lparr>isModified := False\<rparr>) (variables lp),
                       status := Some st, resolveOK := True\<rparr>
         in findSolutionValues G self lp = Inr (st, lp')
            \<and> list_all (\<lambda>var. \<not> isModified var) (variables lp')
            \<and> status lp' = Some st
            \<and> map varValue (variables lp') = map varValue (variables lp)
            \<and> map dj (variables lp') = map dj (variables lp)
            \<and> constraints lp' = constraints lp"
  using assms
  by (simp add: findSolutionValues_def Let_def assignStatus_def list_all_iff o_def)

text \<open>
  An infeasible model (code 3): the value 6 that \<open>y\<close> had and the dual 9 of the
  constraint stay.
\<close>

theorem findSolutionValues_not_optimal_witness:
  "solverModel (example_lp (Some (example_model 3 False))) = Some (example_model 3 False)
   \<and> dict_get (gurobiLpStatus gurobipy_GRB) (Status (example_model 3 False)) LpStatusUndefined
       \<noteq> LpStatusOptimal
   \<and> map_sum id fst (findSolutionValues gurobipy_GRB (example_solver True)
        (example_lp (Some (example_model 3 False)))) = Inr LpStatusInfeasible
   \<and> map_sum id (map varValue \<circ> variables \<circ> snd)
        (findSolutionValues gurobipy_GRB (example_solver True)
          (example_lp (Some (example_model 3 False)))) = Inr [None, Some 6]
   \<and> map_sum id (map isModified \<circ> variables \<circ> snd)
        (findSolutionValues gurobipy_GRB (example_solver True)
          (example_lp (Some (example_model 3 False)))) = Inr [False, False]
   \<and> map_sum id (map (constr_pi \<circ> snd) \<circ> constraints \<circ> snd)
        (findSolutionValues gurobipy_GRB (example_solver True)
          (example_lp (Some (example_model 3 False)))) = Inr [Some 9]"
  using findSolutionValues_not_optimal [of "example_lp (Some (example_model 3 False))"
      "example_model 3 False" gurobipy_GRB "example_solver True"]
  by (simp add: Let_def dict_get_def gurobiLpStatus_def gurobipy_GRB_def example_lp_def
      example_model_def example_var_def)

subsection \<open>The Optimal status\<close>

text \<open>
  Claim C3. With a status that maps to Optimal, and a native model that reports one value
  per Variable and one slack per Constraint (and, when it is not a MIP, one reduced cost
  per Variable and one dual per Constraint), \<open>findSolutionValues\<close> writes the solution
  value onto every Variable and the slack onto every Constraint in both cases; it writes
  the reduced cost onto every Variable and the dual onto every Constraint exactly when
  the native model is not a MIP, and for a MIP those two fields keep what they held.
\<close>

theorem findSolutionValues_optimal:
  assumes "solverModel lp = Some m"
    and "dict_get (gurobiLpStatus G) (Status m) LpStatusUndefined = LpStatusOptimal"
    and "length (Attr_X m) = length (variables lp)"
    and "length (Attr_Slack m) = length (constraints lp)"
    and "\<not> Attr_IsMIP m \<Longrightarrow> length (Attr_RC m) = length (variables lp)"
    and "\<not> Attr_IsMIP m \<Longrightarrow> length (Attr_Pi m) = length (constraints lp)"
  shows "\<exists>lp'. findSolutionValues G self lp = Inr (LpStatusOptimal, lp')
           \<and> map varValue (variables lp') = map Some (Attr_X m)
           \<and> map (slack \<circ> snd) (constraints lp') = map Some (Attr_Slack m)
           \<and> map dj (variables lp') =
               (if Attr_IsMIP m then map dj (variables lp) else map Some (Attr_RC m))
           \<and> map (constr_pi \<circ> snd) (constraints lp') =
               (if Attr_IsMIP m then map (constr_pi \<circ> snd) (constraints lp)
                else map Some (Attr_Pi m))"
proof (cases "Attr_IsMIP m")
  case True
  then show ?thesis
    using assms(1-4)
    by (simp add: findSolutionValues_def Let_def assignStatus_def o_def
        zip_assign_map_eq zip_assign_map_keep set_varValue_def set_slack_def)
next
  case False
  then show ?thesis
    using assms
    by (simp add: findSolutionValues_def Let_def assignStatus_def o_def
        zip_assign_map_eq zip_assign_map_keep set_varValue_def set_slack_def set_dj_def
        set_pi_def)
qed

text \<open>
  An optimal model (code 2) that is a MIP: values and slack are written, the reduced
  costs stay absent and the dual 9 stays.
\<close>

theorem findSolutionValues_optimal_witness:
  "solverModel (example_lp (Some (example_model 2 True))) = Some (example_model 2 True)
   \<and> dict_get (gurobiLpStatus gurobipy_GRB) (Status (example_model 2 True)) LpStatusUndefined
       = LpStatusOptimal
   \<and> length (Attr_X (example_model 2 True))
       = length (variables (example_lp (Some (example_model 2 True))))
   \<and> length (Attr_Slack (example_model 2 True))
       = length (constraints (example_lp (Some (example_model 2 True))))
   \<and> Attr_IsMIP (example_model 2 True)
   \<and> (\<exists>lp'. findSolutionValues gurobipy_GRB (example_solver True)
               (example_lp (Some (example_model 2 True))) = Inr (LpStatusOptimal, lp')
           \<and> map varValue (variables lp') = [Some 1, Some 2]
           \<and> map (slack \<circ> snd) (constraints lp') = [Some 0]
           \<and> map dj (variables lp') = [None, None]
           \<and> map (constr_pi \<circ> snd) (constraints lp') = [Some 9])"
  using findSolutionValues_optimal [of "example_lp (Some (example_model 2 True))"
      "example_model 2 True" gurobipy_GRB "example_solver True"]
  by (simp add: dict_get_def gurobiLpStatus_def gurobipy_GRB_def example_lp_def
      example_model_def example_var_def)

subsection \<open>The variables of the native model\<close>

lemma fst_add_variables:
  "fst (add_variables G self objv vars m) =
     map (\<lambda>var. var\<lparr>solverVar := Some
            \<lparr>lb = (case lowBound var of None \<Rightarrow> - INFINITY G | Some l \<Rightarrow> l),
             ub = (case upBound var of None \<Rightarrow> INFINITY G | Some u \<Rightarrow> u),
             vtype = (if cat var = LpInteger \<and> mip self then INTEGER else CONTINUOUS),
             obj = (case objv (name var) of None \<Rightarrow> 0 | Some c \<Rightarrow> c),
             VarName = name var\<rparr>\<rparr>) vars"
  by (induction vars arbitrary: m) (simp_all add: Let_def addVar_def split_def)

lemma getVars_add_variables:
  "getVars (snd (add_variables G self objv vars m)) =
     getVars m @ map (\<lambda>var.
            \<lparr>lb = (case lowBound var of None \<Rightarrow> - INFINITY G | Some l \<Rightarrow> l),
             ub = (case upBound var of None \<Rightarrow> INFINITY G | Some u \<Rightarrow> u),
             vtype = (if cat var = LpInteger \<and> mip self then INTEGER else CONTINUOUS),
             obj = (case objv (name var) of None \<Rightarrow> 0 | Some c \<Rightarrow> c),
             VarName = name var\<rparr>) vars"
  by (induction vars arbitrary: m) (simp_all add: Let_def addVar_def split_def)

lemma getVars_add_constraints:
  "getVars (snd (snd (add_constraints vars cons m))) = getVars m"
  by (induction cons arbitrary: m)
    (auto simp: Let_def addConstr_def split_def split: sum.splits option.splits)

lemma getVars_setParam_if [simp]: "getVars (setParam_if m k v) = getVars m"
  by (simp add: setParam_if_def setParam_def split: option.splits)

text \<open>
  Claim C8. \<open>buildSolverModel\<close> leaves every Variable of the problem with a native
  variable attached as its handle, whether or not a constraint raises afterwards. The
  native variable has the Variable's lower bound, or minus the infinity sentinel when it
  has none; its upper bound, or the infinity sentinel; the kind integer if and only if
  the Variable's category is integer and the \<open>mip\<close> flag is set, continuous otherwise;
  the Variable's coefficient in the objective, or 0 when the objective does not mention
  it; and the Variable's name. These native variables, in the order of the Variables, are
  the variables of the native model.
\<close>

theorem buildSolverModel_variables:
  "variables (snd (buildSolverModel G self lp)) =
     map (\<lambda>var. var\<lparr>solverVar := Some
            \<lparr>lb = (case lowBound var of None \<Rightarrow> - INFINITY G | Some l \<Rightarrow> l),
             ub = (case upBound var of None \<Rightarrow> INFINITY G | Some u \<Rightarrow> u),
             vtype = (if cat var = LpInteger \<and> mip self then INTEGER else CONTINUOUS),
             obj = (case objective lp (name var) of None \<Rightarrow> 0 | Some c \<Rightarrow> c),
             VarName = name var\<rparr>\<rparr>) (variables lp)
   \<and> map_option getVars (solverModel (snd (buildSolverModel G self lp))) =
       Some (map (\<lambda>var.
            \<lparr>lb = (case lowBound var of None \<Rightarrow> - INFINITY G | Some l \<Rightarrow> l),
             ub = (case upBound var of None \<Rightarrow> INFINITY G | Some u \<Rightarrow> u),
             vtype = (if cat var = LpInteger \<and> mip self then INTEGER else CONTINUOUS),
             obj = (case objective lp (name var) of None \<Rightarrow> 0 | Some c \<Rightarrow> c),
             VarName = name var\<rparr>) (variables lp))"
proof -
  define m4 where "m4 =
     setParam_if (setParam_if (setParam_if
       (if lp_sense lp = LpMaximize then (Model G (lp_name lp))\<lparr>ModelSense := - 1\<rparr>
        else Model G (lp_name lp))
       ''TimeLimit'' (map_option PNum (timeLimit self)))
       ''MIPGap'' (optionsDict self ''gapRel''))
       ''LogFile'' (optionsDict self ''logPath'')"
  obtain vars m5 where av: "add_variables G self (objective lp) (variables lp) m4 = (vars, m5)"
    by (cases "add_variables G self (objective lp) (variables lp) m4") auto
  obtain err cons m6 where ac: "add_constraints vars (constraints lp) m5 = (err, cons, m6)"
    by (cases "add_constraints vars (constraints lp) m5") auto
  have b: "buildSolverModel G self lp =
             (err, lp\<lparr>variables := vars, constraints := cons, solverModel := Some m6\<rparr>)"
    using av ac by (simp add: buildSolverModel_def Let_def m4_def)
  have v: "vars = fst (add_variables G self (objective lp) (variables lp) m4)"
    using av by simp
  have g5: "getVars m5 = getVars (snd (add_variables G self (objective lp) (variables lp) m4))"
    using av by simp
  have g6: "getVars m6 = getVars m5"
    using getVars_add_constraints [of vars "constraints lp" m5] ac by simp
  have g4: "getVars m4 = []"
    by (simp add: m4_def Model_def)
  show ?thesis
    unfolding b using v g5 g6 g4
    by (simp add: fst_add_variables getVars_add_variables)
qed

section \<open>Properties of the command-line adapter\<close>

subsection \<open>What readsol computes\<close>

text \<open>
  What \<open>split\<close> yields: tokens, which together hold the characters of the text that are
  not whitespace, in order.
\<close>

lemma split_from_tokens:
  "list_all (\<lambda>c. \<not> isspace c) tok \<Longrightarrow> list_all is_token (split_from tok s)"
  by (induction s arbitrary: tok) (auto simp: is_token_def)

lemma py_split_tokens: "list_all is_token (py_split s)"
  by (simp add: py_split_def split_from_tokens)

lemma split_from_concat:
  assumes "list_all (\<lambda>c. \<not> isspace c) tok"
  shows "concat (split_from tok s) = filter (\<lambda>c. \<not> isspace c) (tok @ s)"
  using assms
proof (induction s arbitrary: tok)
  case Nil
  then show ?case by (simp add: list_all_iff filter_id_conv)
next
  case (Cons c s)
  show ?case
  proof (cases "isspace c")
    case True
    then show ?thesis
      using Cons.prems Cons.IH [of "[]"] by (simp add: list_all_iff filter_id_conv)
  next
    case False
    then show ?thesis
      using Cons.prems Cons.IH [of "tok @ [c]"] by simp
  qed
qed

lemma file_lines_no_empty: "[] \<notin> set (file_lines s)"
  by (induction s) (auto split: list.splits)

lemma file_lines_Nil_iff [simp]: "file_lines s = [] \<longleftrightarrow> s = []"
  by (cases s) (auto split: list.splits)

lemma universal_newlines_Nil_iff [simp]: "universal_newlines s = [] \<longleftrightarrow> s = []"
  by (induction s rule: universal_newlines.induct) auto

lemma readsol_lines_char:
  "[] \<notin> set ls \<Longrightarrow>
   readsol_lines pyfloat ls acc =
     (if list_all (\<lambda>line. line_pair pyfloat line \<noteq> None) (filter (\<lambda>line. \<not> is_comment line) ls)
      then Inr (acc ++ map_of (rev (List.map_filter (line_pair pyfloat)
                  (filter (\<lambda>line. \<not> is_comment line) ls))))
      else Inl ValueError)"
proof (induction ls arbitrary: acc)
  case Nil
  then show ?case by (simp add: map_filter_simps)
next
  case (Cons line ls)
  then obtain c cs where line: "line = c # cs" by (cases line) auto
  from Cons.prems have ne: "[] \<notin> set ls" by auto
  show ?case
  proof (cases "c = CHR ''#''")
    case True
    then show ?thesis using Cons.IH[OF ne] line by (simp add: is_comment_def)
  next
    case False
    show ?thesis
    proof (cases "line_pair pyfloat line")
      case None
      then show ?thesis using False line
        by (auto simp: is_comment_def line_pair_def split: list.splits option.splits)
    next
      case (Some p)
      then obtain nm v x where sp: "py_split line = [nm, v]" and pf: "pyfloat v = Some x"
        and p: "p = (nm, x)"
        by (auto simp: line_pair_def split: list.splits option.splits)
      have "readsol_lines pyfloat (line # ls) acc = readsol_lines pyfloat ls (acc(nm \<mapsto> x))"
        using False line sp pf by simp
      also have "\<dots> = (if list_all (\<lambda>line. line_pair pyfloat line \<noteq> None) (filter (\<lambda>line. \<not> is_comment line) ls)
      then Inr (acc(nm \<mapsto> x) ++ map_of (rev (List.map_filter (line_pair pyfloat)
                  (filter (\<lambda>line. \<not> is_comment line) ls))))
      else Inl ValueError)" by (rule Cons.IH[OF ne])
      finally show ?thesis using False line Some p
        by (simp add: is_comment_def map_filter_simps map_add_upd_left[symmetric] del: map_add_upd_left)
    qed
  qed
qed

lemma readsol_char:
  "readsol pyfloat content =
     (if content = [] then Inr (LpStatusNotSolved, Map.empty, Map.empty, Map.empty, Map.empty)
      else if well_formed pyfloat content
      then Inr (LpStatusOptimal, parsed_values pyfloat content, Map.empty, Map.empty, Map.empty)
      else Inl ValueError)"
proof (cases "file_lines (universal_newlines content)")
  case Nil
  then show ?thesis by (simp add: readsol_def)
next
  case (Cons first my_file)
  then have "[] \<notin> set my_file" using file_lines_no_empty[of "universal_newlines content"] by auto
  from readsol_lines_char[OF this, of pyfloat Map.empty] Cons show ?thesis
    by (auto simp: readsol_def well_formed_def parsed_values_def data_lines_def)
qed

text \<open>
  Claim C5, as the code has it. On an empty file \<open>readsol\<close> returns NotSolved with four
  empty mappings. On a file that is not empty and whose data lines (the lines after the
  first that do not begin with \<open>#\<close>) each split into exactly two tokens, the second
  denoting a number, it returns Optimal, the values mapping each data line's first token
  to the number of its second, and empty mappings for reduced costs, shadow prices and
  slacks. On any other file \<open>ValueError\<close> leaves the function.
\<close>

theorem readsol_result:
  "readsol pyfloat content =
     (if content = [] then Inr (LpStatusNotSolved, Map.empty, Map.empty, Map.empty, Map.empty)
      else if well_formed pyfloat content
      then Inr (LpStatusOptimal, parsed_values pyfloat content, Map.empty, Map.empty, Map.empty)
      else Inl ValueError)"
  by (rule readsol_char)

text \<open>
  The claim as it is stated promises Optimal for every file that is not empty. A file
  whose second line holds a single token is not empty, and \<open>readsol\<close> raises on it.
\<close>

theorem readsol_nonempty_not_optimal:
  "readsol float_dec ''obj\<newline>x\<newline>'' = Inl ValueError"
  by (simp add: readsol_def LF_def CR_def py_split_def isspace_def)

text \<open>
  Claim C10. \<open>readsol\<close> returns normally exactly on the inputs whose every line after
  the first that does not begin with \<open>#\<close> splits into exactly two whitespace-separated
  tokens with a second token that parses as a number (the empty file has no such line);
  on every other input, and these are not empty, \<open>ValueError\<close> escapes.
\<close>

theorem readsol_returns_iff_well_formed:
  "((\<exists>r. readsol pyfloat content = Inr r) = well_formed pyfloat content)
   \<and> ((readsol pyfloat content = Inl ValueError)
       = (\<not> well_formed pyfloat content \<and> content \<noteq> []))"
proof -
  have "well_formed pyfloat []"
    by (simp add: well_formed_def data_lines_def)
  then show ?thesis
    by (auto simp: readsol_char)
qed

subsection \<open>Writing a warm-start file and reading it as a solution file\<close>

lemma isspace_LF [simp]: "isspace LF" and isspace_CR [simp]: "isspace CR"
  and isspace_space [simp]: "isspace (CHR '' '')"
  by (simp_all add: isspace_def LF_def CR_def)

lemma split_from_run:
  "list_all (\<lambda>c. \<not> isspace c) w \<Longrightarrow> split_from tok (w @ rest) = split_from (tok @ w) rest"
  by (induction w arbitrary: tok) simp_all

lemma py_split_row:
  assumes "is_token a" "is_token b"
  shows "py_split (a @ '' '' @ b) = [a, b]" and "py_split ((a @ '' '' @ b) @ [LF]) = [a, b]"
  using assms split_from_run[of a "[]" "CHR '' '' # b"] split_from_run[of b "[]" "[]"]
    split_from_run[of a "[]" "CHR '' '' # b @ [LF]"] split_from_run[of b "[]" "[LF]"]
  by (simp_all add: py_split_def is_token_def)

lemma universal_newlines_id: "CR \<notin> set s \<Longrightarrow> universal_newlines s = s"
  by (induction s rule: universal_newlines.induct) auto

lemma file_lines_run:
  "LF \<notin> set r \<Longrightarrow>
   file_lines (r @ rest) =
     (case file_lines rest of [] \<Rightarrow> (if r = [] then [] else [r]) | l # ls \<Rightarrow> (r @ l) # ls)"
  by (induction r) (auto split: list.splits)

lemma file_lines_join:
  "\<forall>r \<in> set rows. r \<noteq> [] \<and> LF \<notin> set r \<Longrightarrow> file_lines (join [LF] rows) = terminated rows"
proof (induction rows rule: terminated.induct)
  case 1
  then show ?case by simp
next
  case (2 r)
  then show ?case using file_lines_run[of r "[]"] by simp
next
  case (3 r r' rs)
  then have "file_lines (join [LF] (r' # rs)) = terminated (r' # rs)" by simp
  then show ?case using 3 file_lines_run[of r "LF # join [LF] (r' # rs)"] by simp
qed

lemma tl_terminated: "tl (terminated rows) = terminated (tl rows)"
  by (induction rows rule: terminated.induct) simp_all

lemma token_no_newline: "is_token s \<Longrightarrow> LF \<notin> set s \<and> CR \<notin> set s"
  by (auto simp: is_token_def list_all_iff)

lemma row_props:
  assumes "row_ok fmt pyfloat nv"
  shows "writesol_row fmt nv \<noteq> []" "LF \<notin> set (writesol_row fmt nv)" "CR \<notin> set (writesol_row fmt nv)"
    "\<not> is_comment (writesol_row fmt nv)" "\<not> is_comment (writesol_row fmt nv @ [LF])"
    "line_pair pyfloat (writesol_row fmt nv) = Some nv"
    "line_pair pyfloat (writesol_row fmt nv @ [LF]) = Some nv"
proof -
  from assms have a: "is_token (fst nv)" and b: "is_token (fmt (snd nv))"
    and c: "\<not> is_comment (fst nv)" and d: "pyfloat (fmt (snd nv)) = Some (snd nv)"
    by (simp_all add: row_ok_def)
  from a obtain x xs where x: "fst nv = x # xs" by (cases "fst nv") (auto simp: is_token_def)
  show "writesol_row fmt nv \<noteq> []" using x by (simp add: writesol_row_def)
  show "LF \<notin> set (writesol_row fmt nv)" "CR \<notin> set (writesol_row fmt nv)"
    using token_no_newline[OF a] token_no_newline[OF b]
    by (auto simp: writesol_row_def LF_def CR_def)
  show "\<not> is_comment (writesol_row fmt nv)" "\<not> is_comment (writesol_row fmt nv @ [LF])"
    using c x by (simp_all add: writesol_row_def is_comment_def)
  show "line_pair pyfloat (writesol_row fmt nv) = Some nv"
    "line_pair pyfloat (writesol_row fmt nv @ [LF]) = Some nv"
    using py_split_row[OF a b] d by (simp_all add: line_pair_def writesol_row_def)
qed

lemma terminated_rows_parse:
  "list_all (row_ok fmt pyfloat) ps \<Longrightarrow>
   filter (\<lambda>line. \<not> is_comment line) (terminated (map (writesol_row fmt) ps))
     = terminated (map (writesol_row fmt) ps)
   \<and> List.map_filter (line_pair pyfloat) (terminated (map (writesol_row fmt) ps)) = ps"
proof (induction ps rule: induct_list012)
  case 1
  then show ?case by (simp add: map_filter_simps)
next
  case (2 r)
  then show ?case using row_props[of fmt pyfloat r] by (simp add: map_filter_simps)
next
  case (3 r r' rs)
  then show ?case using row_props[of fmt pyfloat r] by (simp add: map_filter_simps)
qed

lemma list_all_tl: "list_all P xs \<Longrightarrow> list_all P (tl xs)"
  by (cases xs) simp_all

text \<open>
  Claim C4, as the code has it. \<open>writesol\<close> writes no header and \<open>readsol\<close> skips the
  first line as the objective value, so the first pair written does not come back. When
  every pair \<open>(name, value)\<close> written has a name that is a token not beginning with
  \<open>#\<close> and a value whose text is a token that \<open>float\<close> reads back as the value, reading
  the written file yields the pairs after the first in the values mapping (a later pair
  replacing an earlier one of the same name), with status Optimal when at least one pair
  was written and NotSolved when none was.
\<close>

theorem writesol_readsol:
  assumes "list_all (row_ok fmt pyfloat) (writesol_values vs)"
  shows "readsol pyfloat (writesol fmt vs) =
           Inr (if writesol_values vs = [] then LpStatusNotSolved else LpStatusOptimal,
                map_of (rev (tl (writesol_values vs))), Map.empty, Map.empty, Map.empty)"
proof -
  let ?ps = "writesol_values vs"
  let ?rows = "map (writesol_row fmt) ?ps"
  have rows: "\<forall>r \<in> set ?rows. r \<noteq> [] \<and> LF \<notin> set r"
    using assms row_props(1,2) by (auto simp: list_all_iff)
  have nocr: "CR \<notin> set (join [LF] ?rows)"
  proof -
    have "\<forall>r \<in> set rs. CR \<notin> set r \<Longrightarrow> CR \<notin> set (join [LF] rs)" for rs
      by (induction rs rule: terminated.induct) (auto simp: LF_def CR_def)
    moreover have "\<forall>r \<in> set ?rows. CR \<notin> set r"
      using assms row_props(3)[of fmt pyfloat] by (auto simp: list_all_iff)
    ultimately show ?thesis by blast
  qed
  have lines: "file_lines (universal_newlines (writesol fmt vs)) = terminated ?rows"
    using universal_newlines_id[OF nocr] file_lines_join[OF rows] by (simp add: writesol_def)
  have dl: "data_lines (writesol fmt vs) = terminated (map (writesol_row fmt) (tl ?ps))"
    using lines terminated_rows_parse[OF list_all_tl[OF assms]]
    by (simp add: data_lines_def tl_terminated map_tl)
  have wf: "well_formed pyfloat (writesol fmt vs)"
    unfolding well_formed_def dl
  proof -
    have "list_all (row_ok fmt pyfloat) qs \<Longrightarrow>
          list_all (\<lambda>line. line_pair pyfloat line \<noteq> None) (terminated (map (writesol_row fmt) qs))" for qs
      by (induction qs rule: induct_list012) (simp_all add: row_props)
    then show "list_all (\<lambda>line. line_pair pyfloat line \<noteq> None) (terminated (map (writesol_row fmt) (tl ?ps)))"
      using list_all_tl[OF assms] by blast
  qed
  have pv: "parsed_values pyfloat (writesol fmt vs) = map_of (rev (tl ?ps))"
    using terminated_rows_parse[OF list_all_tl[OF assms]] by (simp add: parsed_values_def dl)
  have "terminated rs = [] \<longleftrightarrow> rs = []" for rs
    by (induction rs rule: terminated.induct) simp_all
  then have "file_lines (universal_newlines (writesol fmt vs)) = [] \<longleftrightarrow> ?ps = []"
    unfolding lines by simp
  then have empty: "writesol fmt vs = [] \<longleftrightarrow> ?ps = []"
    by simp
  show ?thesis using wf pv empty by (simp add: readsol_char)
qed

text \<open>Two variables \<open>x = 1\<close> and \<open>y = 2\<close>: only \<open>y\<close> comes back.\<close>

theorem writesol_readsol_witness:
  "list_all (row_ok fmt_dec float_dec) (writesol_values (writeLP_vs (example_env 0 None)))
   \<and> writesol fmt_dec (writeLP_vs (example_env 0 None)) = ''x 1\<newline>y 2''
   \<and> readsol float_dec (writesol fmt_dec (writeLP_vs (example_env 0 None))) =
       Inr (LpStatusOptimal, [''y'' \<mapsto> 2], Map.empty, Map.empty, Map.empty)"
  using writesol_readsol [of fmt_dec float_dec "writeLP_vs (example_env 0 None)"]
  by (simp add: example_env_def example_var_def writesol_values_def var_value_def
      map_filter_simps row_ok_def is_token_def is_comment_def isspace_def fmt_dec_def
      str_nat.simps float_dec_def digit_val_def writesol_def writesol_row_def LF_def)

text \<open>
  The claim as it is stated promises the same pairs back. The single pair \<open>(x, 1)\<close> is
  written as the one line \<open>x 1\<close>, and reading that file yields no pair at all.
\<close>

theorem writesol_readsol_loses_first_pair:
  "writesol_values [example_var ''x'' LpContinuous (Some 1)] = [(''x'', 1)]
   \<and> writesol fmt_dec [example_var ''x'' LpContinuous (Some 1)] = ''x 1''
   \<and> readsol float_dec (writesol fmt_dec [example_var ''x'' LpContinuous (Some 1)]) =
       Inr (LpStatusOptimal, Map.empty, Map.empty, Map.empty, Map.empty)"
  by (simp add: example_var_def writesol_values_def var_value_def map_filter_simps
      fmt_dec_def str_nat.simps writesol_def writesol_row_def readsol_def CR_def LF_def)

subsection \<open>The events of a command-line solve\<close>

lemma actualSolve_events:
  "GUROBI_CMD_actualSolve fmt pyfloat self env =
     (if \<not> executable env
      then (Inl (PulpSolverError (''PuLP: cannot execute '' @ path self)), [])
      else if return_code env \<noteq> 0
      then (Inl (PulpSolverError (''PuLP: Error while trying to execute '' @ path self)),
            call_events fmt self env)
      else
        (case solution_file env of
           None \<Rightarrow>
             (Inr LpStatusNotSolved,
              call_events fmt self env
              @ extract_results [fst (tmp_files env), snd (snd (tmp_files env)),
                  fst (snd (tmp_files env)), ''gurobi.log''] LpStatusNotSolved None None None None)
         | Some content \<Rightarrow>
             (case readsol pyfloat content of
                Inl e \<Rightarrow> (Inl e, call_events fmt self env @ [ReadSol (fst (snd (tmp_files env)))])
              | Inr r \<Rightarrow>
                  (Inr (fst r),
                   call_events fmt self env @ [ReadSol (fst (snd (tmp_files env)))]
                   @ extract_results [fst (tmp_files env), snd (snd (tmp_files env)),
                       fst (snd (tmp_files env)), ''gurobi.log''] (fst r)
                       (Some (fst (snd r))) (Some (fst (snd (snd r))))
                       (Some (fst (snd (snd (snd r))))) (Some (snd (snd (snd (snd r)))))))))"
  by (simp add: GUROBI_CMD_actualSolve_def call_events_def Let_def split_def
      split: option.splits sum.splits)

lemma deleted_files_append [simp]:
  "deleted_files (xs @ ys) = deleted_files xs @ deleted_files ys"
  by (induction xs rule: deleted_files.induct) simp_all

lemma pushed_append [simp]: "pushed (xs @ ys) = pushed xs @ pushed ys"
  by (induction xs rule: pushed.induct) simp_all

lemma call_events_views [simp]:
  "deleted_files (call_events fmt self env) = []"
  "filter is_extraction (call_events fmt self env) = []"
  "pushed (call_events fmt self env) = []"
  "filter pipe_event (call_events fmt self env) =
     (if msg self
      then [SubprocessCall (py_split (build_cmd fmt self (fst (tmp_files env))
               (fst (snd (tmp_files env))) (snd (snd (tmp_files env))))) False]
      else [OpenDevnull,
            SubprocessCall (py_split (build_cmd fmt self (fst (tmp_files env))
               (fst (snd (tmp_files env))) (snd (snd (tmp_files env))))) True,
            ClosePipe])"
  by (simp_all add: call_events_def)

lemma extract_results_views [simp]:
  "deleted_files (extract_results files st a b c d) = files"
  "filter pipe_event (extract_results files st a b c d) = []"
  "pushed (extract_results files st a b c d) =
     (if st \<noteq> LpStatusInfeasible then [b, c, d] else [])"
  by (simp_all add: extract_results_def)

lemma well_formed_Nil [simp]: "well_formed pyfloat []"
  by (simp add: well_formed_def data_lines_def)

lemma readsol_Inr:
  "readsol pyfloat content = Inr r \<Longrightarrow>
     fst r \<noteq> LpStatusInfeasible \<and> fst (snd (snd r)) = Map.empty
     \<and> fst (snd (snd (snd r))) = Map.empty \<and> snd (snd (snd (snd r))) = Map.empty"
  by (auto simp: readsol_char split: if_splits)

subsection \<open>Reduced costs, shadow prices and slacks of a command-line solve\<close>

text \<open>
  Claim C9. Whatever the file holds, \<open>readsol\<close> either raises or returns empty mappings
  for reduced costs, shadow prices and slacks. So after a command-line solve that returns
  a status, the reduced costs, shadow prices and slacks pushed onto the problem hold no
  entry: they are the three empty mappings when a solution file was parsed, and the three
  absent mappings \<open>None\<close> when the solver left no solution file. A solve that raises
  pushes nothing.
\<close>

theorem readsol_never_populates:
  "(readsol pyfloat content = Inl ValueError
      \<or> (\<exists>st vals. readsol pyfloat content = Inr (st, vals, Map.empty, Map.empty, Map.empty)))
   \<and> pushed (snd (GUROBI_CMD_actualSolve fmt pyfloat self env)) =
       (if isl (fst (GUROBI_CMD_actualSolve fmt pyfloat self env)) then []
        else if solution_file env = None then [None, None, None]
        else [Some Map.empty, Some Map.empty, Some Map.empty])"
proof
  show "readsol pyfloat content = Inl ValueError
      \<or> (\<exists>st vals. readsol pyfloat content = Inr (st, vals, Map.empty, Map.empty, Map.empty))"
    by (simp add: readsol_char)
  show "pushed (snd (GUROBI_CMD_actualSolve fmt pyfloat self env)) =
       (if isl (fst (GUROBI_CMD_actualSolve fmt pyfloat self env)) then []
        else if solution_file env = None then [None, None, None]
        else [Some Map.empty, Some Map.empty, Some Map.empty])"
    unfolding actualSolve_events
    by (auto split: option.splits sum.splits dest!: readsol_Inr)
qed

subsection \<open>A subprocess that fails\<close>

text \<open>
  Claim C6. When the executable can be run and the subprocess exits with a code other
  than zero, \<open>actualSolve\<close> raises \<open>PulpSolverError\<close> with the message
  \<open>PuLP: Error while trying to execute\<close> followed by the path, and no result is
  extracted: the solution file is not read, and no values, reduced costs, shadow prices,
  slacks or status are assigned onto the problem.
\<close>

theorem actualSolve_nonzero_exit:
  assumes "executable env" and "return_code env \<noteq> 0"
  shows "fst (GUROBI_CMD_actualSolve fmt pyfloat self env) =
           Inl (PulpSolverError (''PuLP: Error while trying to execute '' @ path self))
         \<and> filter is_extraction (snd (GUROBI_CMD_actualSolve fmt pyfloat self env)) = []"
  using assms unfolding actualSolve_events
  by simp

text \<open>Exit code 1, although a solution file is there.\<close>

theorem actualSolve_nonzero_exit_witness:
  "executable (example_env 1 (Some ''obj\<newline>x 1\<newline>''))
   \<and> return_code (example_env 1 (Some ''obj\<newline>x 1\<newline>'')) \<noteq> 0
   \<and> fst (GUROBI_CMD_actualSolve fmt_dec float_dec (example_solver True)
          (example_env 1 (Some ''obj\<newline>x 1\<newline>''))) =
       Inl (PulpSolverError ''PuLP: Error while trying to execute gurobi_cl'')
   \<and> filter is_extraction (snd (GUROBI_CMD_actualSolve fmt_dec float_dec (example_solver True)
          (example_env 1 (Some ''obj\<newline>x 1\<newline>'')))) = []"
  using actualSolve_nonzero_exit [of "example_env 1 (Some ''obj\<newline>x 1\<newline>'')"
      fmt_dec float_dec "example_solver True"]
  by (simp add: example_env_def example_solver_def)

subsection \<open>Cleaning up\<close>

text \<open>
  Claim C7, as the code has it. \<open>actualSolve\<close> returns a status exactly when the path
  is executable, the subprocess exits with code zero, and the solution file is absent or
  parses; exactly then it hands the problem file, the warm-start file, the solution file
  and \<open>gurobi.log\<close> to \<open>delete_tmp_files\<close>. On the paths that raise (the path is not
  executable, the exit code is not zero, the solution file does not parse) it deletes
  nothing. When the path is not executable the call raises before it opens anything;
  otherwise the null device is opened exactly when \<open>msg\<close> is off, and then it is closed
  right after the subprocess call, whatever the exit code is.
\<close>

theorem actualSolve_cleanup:
  "fst (GUROBI_CMD_actualSolve fmt pyfloat self env) =
     (if \<not> executable env
      then Inl (PulpSolverError (''PuLP: cannot execute '' @ path self))
      else if return_code env \<noteq> 0
      then Inl (PulpSolverError (''PuLP: Error while trying to execute '' @ path self))
      else (case solution_file env of
              None \<Rightarrow> Inr LpStatusNotSolved
            | Some content \<Rightarrow>
                if content = [] then Inr LpStatusNotSolved
                else if well_formed pyfloat content then Inr LpStatusOptimal
                else Inl ValueError))
   \<and> deleted_files (snd (GUROBI_CMD_actualSolve fmt pyfloat self env)) =
     (if executable env \<and> return_code env = 0
         \<and> (case solution_file env of None \<Rightarrow> True
             | Some content \<Rightarrow> well_formed pyfloat content)
      then [fst (tmp_files env), snd (snd (tmp_files env)), fst (snd (tmp_files env)),
            ''gurobi.log'']
      else [])
   \<and> filter pipe_event (snd (GUROBI_CMD_actualSolve fmt pyfloat self env)) =
     (if \<not> executable env then []
      else if msg self
      then [SubprocessCall (py_split (build_cmd fmt self (fst (tmp_files env))
               (fst (snd (tmp_files env))) (snd (snd (tmp_files env))))) False]
      else [OpenDevnull,
            SubprocessCall (py_split (build_cmd fmt self (fst (tmp_files env))
               (fst (snd (tmp_files env))) (snd (snd (tmp_files env))))) True,
            ClosePipe])"
  unfolding actualSolve_events
  by (auto simp: readsol_char split: option.splits sum.splits if_splits)

text \<open>
  Two solves that return. With exit code 0 and the solution file \<open>obj\<close>, \<open>x 1\<close> the
  call closes the null device, reads the file, deletes the four files and assigns the
  results; with exit code 0 and no solution file it returns NotSolved and deletes the
  same four files.
\<close>

theorem actualSolve_cleanup_witness:
  "GUROBI_CMD_actualSolve fmt_dec float_dec (example_solver False)
       (example_env 0 (Some ''obj\<newline>x 1\<newline>'')) =
     (Inr LpStatusOptimal,
      [WriteLP ''p.lp'', Remove ''p.sol'', WriteSol ''p.mst'' ''x 1\<newline>y 2'', OpenDevnull,
       SubprocessCall
         [''gurobi_cl'', ''Threads=2'', ''ResultFile=p.sol'', ''InputFile=p.mst'', ''p.lp'']
         True,
       ClosePipe, ReadSol ''p.sol'',
       DeleteTmpFiles [''p.lp'', ''p.mst'', ''p.sol'', ''gurobi.log''],
       AssignVarsVals (Some [''x'' \<mapsto> 1]), AssignVarsDj (Some Map.empty),
       AssignConsPi (Some Map.empty), AssignConsSlack (Some Map.empty),
       AssignStatus LpStatusOptimal])
   \<and> deleted_files (snd (GUROBI_CMD_actualSolve fmt_dec float_dec (example_solver False)
       (example_env 0 (Some ''obj\<newline>x 1\<newline>'')))) =
       [''p.lp'', ''p.mst'', ''p.sol'', ''gurobi.log'']
   \<and> fst (GUROBI_CMD_actualSolve fmt_dec float_dec (example_solver False)
       (example_env 0 None)) = Inr LpStatusNotSolved
   \<and> deleted_files (snd (GUROBI_CMD_actualSolve fmt_dec float_dec (example_solver False)
       (example_env 0 None))) = [''p.lp'', ''p.mst'', ''p.sol'', ''gurobi.log'']"
  using actualSolve_cleanup [of fmt_dec float_dec "example_solver False"
      "example_env 0 (Some ''obj\<newline>x 1\<newline>'')"]
    actualSolve_cleanup [of fmt_dec float_dec "example_solver False" "example_env 0 None"]
  by (simp add: GUROBI_CMD_actualSolve_def example_solver_def example_env_def build_cmd_def
      getOptions_def params_eq_def map_filter_simps py_split_def isspace_def fmt_dec_def
      str_nat.simps writesol_def writesol_values_def writesol_row_def example_var_def
      var_value_def LF_def CR_def readsol_def extract_results_def float_dec_def digit_val_def)

text \<open>
  The claim as it is stated promises the clean-up on the failure paths too. With exit
  code 1 the call writes the problem file and the warm-start file, closes the null
  device, and raises; these are all its events, and no file is deleted.
\<close>

theorem actualSolve_failure_keeps_files:
  "GUROBI_CMD_actualSolve fmt_dec float_dec (example_solver False) (example_env 1 None) =
     (Inl (PulpSolverError ''PuLP: Error while trying to execute gurobi_cl''),
      [WriteLP ''p.lp'', Remove ''p.sol'', WriteSol ''p.mst'' ''x 1\<newline>y 2'', OpenDevnull,
       SubprocessCall
         [''gurobi_cl'', ''Threads=2'', ''ResultFile=p.sol'', ''InputFile=p.mst'', ''p.lp'']
         True,
       ClosePipe])"
  by (simp add: GUROBI_CMD_actualSolve_def example_solver_def example_env_def build_cmd_def
      getOptions_def params_eq_def map_filter_simps py_split_def isspace_def fmt_dec_def
      str_nat.simps writesol_def writesol_values_def writesol_row_def example_var_def
      var_value_def LF_def)

end
